theory Spec2Isabelle
  imports Complex_Main "HOL-Library.Word" "HOL-Library.Sublist"
begin

section \<open>The recorder of audio\_recorder.py\<close>

text \<open>
  The recorder reads fixed-size chunks from a blocking input stream and decides, from the
  energy of each chunk and the wall clock, where an utterance starts and ends. The model
  keeps to the source line by line:
  \<^item> Python's unbounded integers are \<open>int\<close>, its floats are \<open>real\<close> (rounding is not
    modelled), \<open>bytes\<close> are lists of 8-bit words;
  \<^item> \<open>time.time()\<close> reads the field \<open>clock\<close> of the world; the clock advances only while
    a read of the stream blocks, by the duration the device script gives for that read;
  \<^item> the device is a script of pending reads, each with its duration and either the chunk
    it delivers or a fault (the exception \<open>stream.read\<close> raises); a call that needs a read
    the script does not hold has no result in the model (\<open>None\<close>);
  \<^item> \<open>audioop.rms\<close> is the standard library's; it is a parameter \<open>rms\<close> of the model.
\<close>

type_synonym byte = "8 word"
type_synonym bytes = "byte list"

datatype error = RuntimeError | DeviceError | ZeroDivisionError

datatype read_result = Frame bytes | Fault

type_synonym mic_script = "(real \<times> read_result) list"

text \<open>The attributes of \<open>AudioRecorder\<close> that \<open>__init__\<close> takes from the configuration.\<close>

record recorder =
  rate :: int
  width :: int
  channels :: int
  chunk :: int

text \<open>
  The world of one call: the clock, the device script, the module flag \<open>_HAS_PYAUDIO\<close>,
  whether \<open>self._pa\<close> and \<open>self._stream\<close> are set, and whether \<open>self._pa.open\<close> would
  succeed.
\<close>

record world =
  clock :: real
  mic :: mic_script
  has_pyaudio :: bool
  pa_ready :: bool
  stream_open :: bool
  open_ok :: bool

text \<open>The eight parameters of \<open>record_until_silence\<close>.\<close>

record params =
  max_duration :: real
  noise_calib_duration :: real
  start_frames :: int
  end_frames :: int
  post_silence_hold :: real
  pre_roll_ms :: int
  min_speech_after_start :: real
  threshold_boost :: real

text \<open>Python's \<open>int(x)\<close> on a float truncates towards zero.\<close>

definition py_int :: "real \<Rightarrow> int" where
  "py_int x = (if 0 \<le> x then \<lfloor>x\<rfloor> else \<lceil>x\<rceil>)"

definition bytes_per_frame :: "recorder \<Rightarrow> int" where
  "bytes_per_frame R = width R * channels R"

definition block_size :: "recorder \<Rightarrow> int" where
  "block_size R = chunk R * bytes_per_frame R"

definition pre_roll_bytes :: "recorder \<Rightarrow> params \<Rightarrow> int" where
  "pre_roll_bytes R P =
     py_int (real_of_int (rate R * pre_roll_ms P) / 1000) * bytes_per_frame R"

text \<open>Line 187; \<open>//\<close> on a zero block size raises, which the caller of this function checks.\<close>

definition pre_roll_blocks :: "recorder \<Rightarrow> params \<Rightarrow> int" where
  "pre_roll_blocks R P = max 1 (pre_roll_bytes R P div block_size R)"

definition hold_bytes :: "recorder \<Rightarrow> params \<Rightarrow> int" where
  "hold_bytes R P = py_int (real_of_int (rate R) * post_silence_hold P) * bytes_per_frame R"

definition hold_blocks :: "recorder \<Rightarrow> params \<Rightarrow> int" where
  "hold_blocks R P = max 1 (hold_bytes R P div block_size R)"

text \<open>
  \<open>collections.deque(maxlen=cap).append(x)\<close>: the new element goes to the right end and,
  when the deque is full, the leftmost one is dropped.
\<close>

definition ring_append :: "nat \<Rightarrow> 'a list \<Rightarrow> 'a \<Rightarrow> 'a list" where
  "ring_append cap ring x = drop (Suc (length ring) - cap) (ring @ [x])"

text \<open>
  \<open>_ensure_stream\<close>: nothing to do when the stream is open; otherwise it needs the
  PyAudio handle, opens the stream, and primes it with one read whose failure it swallows.
\<close>

definition ensure_stream :: "world \<Rightarrow> (error + world) option" where
  "ensure_stream w =
     (if stream_open w then Some (Inr w)
      else if \<not> pa_ready w then Some (Inl RuntimeError)
      else if \<not> open_ok w then Some (Inl RuntimeError)
      else (case mic w of
              [] \<Rightarrow> None
            | (d, r) # rest \<Rightarrow>
                Some (Inr (w\<lparr>stream_open := True, clock := clock w + d, mic := rest\<rparr>))))"

text \<open>
  The calibration loop (lines 195 to 199), by recursion on the device script: the clock
  \<open>now\<close>, the list \<open>noise_vals\<close> and the ring.
\<close>

fun calibrate ::
  "(bytes \<Rightarrow> nat) \<Rightarrow> nat \<Rightarrow> real \<Rightarrow> real \<Rightarrow> mic_script \<Rightarrow> nat list \<Rightarrow> bytes list
     \<Rightarrow> ((error + nat list \<times> bytes list) \<times> real \<times> mic_script) option" where
  "calibrate rms cap calib_end now [] noise_vals ring =
     (if now < calib_end then None else Some (Inr (noise_vals, ring), now, []))"
| "calibrate rms cap calib_end now ((d, r) # rest) noise_vals ring =
     (if now < calib_end then
        (case r of
           Fault \<Rightarrow> Some (Inl DeviceError, now + d, rest)
         | Frame data \<Rightarrow>
             calibrate rms cap calib_end (now + d) rest
               (noise_vals @ [rms data]) (ring_append cap ring data))
      else Some (Inr (noise_vals, ring), now, (d, r) # rest))"

text \<open>Lines 201 to 204.\<close>

definition noise_floor :: "nat list \<Rightarrow> real" where
  "noise_floor noise_vals =
     (if noise_vals \<noteq> [] then real (sum_list noise_vals) / real (max 1 (length noise_vals))
      else 50)"

definition start_threshold :: "real \<Rightarrow> real \<Rightarrow> real" where
  "start_threshold nf boost = max 150 (nf * boost)"

definition end_threshold :: "real \<Rightarrow> real \<Rightarrow> real" where
  "end_threshold nf boost = max 100 (nf * (boost * (55 / 100)))"

text \<open>
  The state of the main loop. The field \<open>events\<close> is an observation the source does not
  keep: no branch reads it. It records the clock at which \<open>speaking\<close> is set (line 232)
  and the clock at which the end condition of line 245 is met.
\<close>

datatype event = Onset real | EndOfSpeech real

record vad_state =
  speaking :: bool
  over_count :: int
  under_count :: int
  start_time :: "real option"
  frames :: "bytes list"
  events :: "event list"

text \<open>
  Lines 228 to 245 for one chunk of energy \<open>e\<close>, read at clock \<open>now\<close>: the new state and
  whether the end condition holds. \<open>if start_time\<close> is false for \<open>None\<close> and for \<open>0.0\<close>.
\<close>

definition vad_step ::
  "params \<Rightarrow> real \<Rightarrow> real \<Rightarrow> nat \<Rightarrow> real \<Rightarrow> vad_state \<Rightarrow> vad_state \<times> bool" where
  "vad_step P start_thr end_thr e now s =
     (if \<not> speaking s then
        (if start_thr \<le> real e then
           (let s1 = s\<lparr>over_count := over_count s + 1\<rparr> in
            if start_frames P \<le> over_count s1
            then (s1\<lparr>speaking := True, start_time := Some now, under_count := 0,
                      events := events s1 @ [Onset now]\<rparr>, False)
            else (s1, False))
         else (s\<lparr>over_count := 0\<rparr>, False))
      else
        (let s1 = (if real e < end_thr then s\<lparr>under_count := under_count s + 1\<rparr>
                   else s\<lparr>under_count := 0\<rparr>);
             long_enough = (case start_time s1 of
                              None \<Rightarrow> False
                            | Some t \<Rightarrow> t \<noteq> 0 \<and> min_speech_after_start P \<le> now - t)
         in if long_enough \<and> end_frames P \<le> under_count s1
            then (s1\<lparr>events := events s1 @ [EndOfSpeech now]\<rparr>, True)
            else (s1, False)))"

text \<open>The post-silence hold (lines 249 to 253): at most \<open>n\<close> more reads, cut at the deadline.\<close>

fun hold_loop ::
  "real \<Rightarrow> nat \<Rightarrow> real \<Rightarrow> mic_script \<Rightarrow> bytes list
     \<Rightarrow> ((error + bytes list) \<times> real \<times> mic_script) option" where
  "hold_loop hard_deadline 0 now m fs = Some (Inr fs, now, m)"
| "hold_loop hard_deadline (Suc n) now [] fs =
     (if hard_deadline \<le> now then Some (Inr fs, now, []) else None)"
| "hold_loop hard_deadline (Suc n) now ((d, r) # rest) fs =
     (if hard_deadline \<le> now then Some (Inr fs, now, (d, r) # rest)
      else (case r of
              Fault \<Rightarrow> Some (Inl DeviceError, now + d, rest)
            | Frame extra \<Rightarrow> hold_loop hard_deadline n (now + d) rest (fs @ [extra])))"

text \<open>The main loop (lines 220 to 254).\<close>

fun main_loop ::
  "(bytes \<Rightarrow> nat) \<Rightarrow> recorder \<Rightarrow> params \<Rightarrow> real \<Rightarrow> real \<Rightarrow> real \<Rightarrow> real \<Rightarrow> mic_script
     \<Rightarrow> vad_state \<Rightarrow> ((error + vad_state) \<times> real \<times> mic_script) option" where
  "main_loop rms R P start_thr end_thr hard_deadline now [] s =
     (if hard_deadline \<le> now then Some (Inr s, now, []) else None)"
| "main_loop rms R P start_thr end_thr hard_deadline now ((d, r) # rest) s =
     (if hard_deadline \<le> now then Some (Inr s, now, (d, r) # rest)
      else (case r of
              Fault \<Rightarrow> Some (Inl DeviceError, now + d, rest)
            | Frame data \<Rightarrow>
                (case vad_step P start_thr end_thr (rms data) (now + d)
                        (s\<lparr>frames := frames s @ [data]\<rparr>) of
                   (s', True) \<Rightarrow>
                     (case hold_loop hard_deadline (nat (hold_blocks R P)) (now + d) rest
                             (frames s') of
                        None \<Rightarrow> None
                      | Some (Inl err, now', m') \<Rightarrow> Some (Inl err, now', m')
                      | Some (Inr fs, now', m') \<Rightarrow> Some (Inr (s'\<lparr>frames := fs\<rparr>), now', m'))
                 | (s', False) \<Rightarrow>
                     main_loop rms R P start_thr end_thr hard_deadline (now + d) rest s')))"

text \<open>Lines 210 to 217: the state at the head of the main loop, seeded with the ring.\<close>

definition init_state :: "bytes list \<Rightarrow> vad_state" where
  "init_state ring =
     \<lparr>speaking = False, over_count = 0, under_count = 0, start_time = None,
      frames = ring, events = []\<rparr>"

text \<open>
  The whole call, up to the final state of the main loop: the checks of lines 179 to
  187, calibration, thresholds, and the main loop. The world after the call has the
  clock and the script where the call left them.
\<close>

definition record_run ::
  "(bytes \<Rightarrow> nat) \<Rightarrow> recorder \<Rightarrow> params \<Rightarrow> world \<Rightarrow> ((error + vad_state) \<times> world) option" where
  "record_run rms R P w =
     (if \<not> has_pyaudio w then Some (Inl RuntimeError, w)
      else (case ensure_stream w of
              None \<Rightarrow> None
            | Some (Inl err) \<Rightarrow> Some (Inl err, w)
            | Some (Inr w1) \<Rightarrow>
                if block_size R = 0 then Some (Inl ZeroDivisionError, w1)
                else
                  (case calibrate rms (nat (pre_roll_blocks R P))
                          (clock w1 + max 0 (noise_calib_duration P)) (clock w1) (mic w1) [] [] of
                     None \<Rightarrow> None
                   | Some (Inl err, now2, m2) \<Rightarrow> Some (Inl err, w1\<lparr>clock := now2, mic := m2\<rparr>)
                   | Some (Inr (noise_vals, ring), now2, m2) \<Rightarrow>
                       (let nf = noise_floor noise_vals in
                        case main_loop rms R P
                               (start_threshold nf (threshold_boost P))
                               (end_threshold nf (threshold_boost P))
                               (now2 + max_duration P) now2 m2 (init_state ring) of
                          None \<Rightarrow> None
                        | Some (Inl err, now3, m3) \<Rightarrow>
                            Some (Inl err, w1\<lparr>clock := now3, mic := m3\<rparr>)
                        | Some (Inr s, now3, m3) \<Rightarrow>
                            Some (Inr s, w1\<lparr>clock := now3, mic := m3\<rparr>)))))"

text \<open>Line 256: what the caller gets, the chunks joined.\<close>

definition record_until_silence ::
  "(bytes \<Rightarrow> nat) \<Rightarrow> recorder \<Rightarrow> params \<Rightarrow> world \<Rightarrow> ((error + bytes) \<times> world) option" where
  "record_until_silence rms R P w =
     (case record_run rms R P w of
        None \<Rightarrow> None
      | Some (Inl err, w') \<Rightarrow> Some (Inl err, w')
      | Some (Inr s, w') \<Rightarrow> Some (Inr (if frames s \<noteq> [] then concat (frames s) else []), w'))"

subsection \<open>What a call consumed\<close>

text \<open>
  Two readings of a run that the theorems name: the chunks the calibration loop reads
  (it stops at the first fault, which the loop raises), and the reads a call took from
  the script, given the script before and after.
\<close>

fun calib_frames :: "real \<Rightarrow> real \<Rightarrow> mic_script \<Rightarrow> bytes list" where
  "calib_frames calib_end now [] = []"
| "calib_frames calib_end now ((d, r) # rest) =
     (if now < calib_end then
        (case r of Fault \<Rightarrow> [] | Frame data \<Rightarrow> data # calib_frames calib_end (now + d) rest)
      else [])"

definition consumed :: "mic_script \<Rightarrow> mic_script \<Rightarrow> mic_script" where
  "consumed m m' = take (length m - length m') m"

definition keep_last :: "nat \<Rightarrow> 'a list \<Rightarrow> 'a list" where
  "keep_last cap xs = drop (length xs - cap) xs"

text \<open>
  The state in which the main loop keeps its log: nothing logged while not speaking,
  and exactly the onset, at \<open>start_time\<close>, while speaking.
\<close>

definition onset_logged :: "vad_state \<Rightarrow> bool" where
  "onset_logged s =
     (if speaking s then (case start_time s of None \<Rightarrow> False | Some t \<Rightarrow> events s = [Onset t])
      else events s = [])"

section \<open>The shared state of main.py\<close>

text \<open>
  \<open>SystemState\<close>, the queue \<open>audio_queue\<close> and the part of \<open>AudioPlayer\<close> that the
  interrupt sequence touches, as one record. The model is sequential: a method runs
  with the lock free and no other thread moves in between. \<open>sd_playing\<close> stands for a
  playback of \<open>sounddevice\<close> in progress, which \<open>sd.stop()\<close> ends.
\<close>

record audio_job =
  path :: string
  blocking :: bool
  volume :: real
  finished :: bool
  canceled :: bool

record system =
  is_listening :: bool
  is_active :: bool
  is_speaking :: bool
  allow_listening_to_user :: bool
  audio_queue :: "string list"
  player_queue :: "audio_job list"
  current_job :: "audio_job option"
  sd_playing :: bool

text \<open>\<open>SystemState.__init__\<close>, with the queues as they are created.\<close>

definition system_init :: system where
  "system_init =
     \<lparr>is_listening = True, is_active = True, is_speaking = False,
      allow_listening_to_user = False, audio_queue = [], player_queue = [],
      current_job = None, sd_playing = False\<rparr>"

definition pause_listening :: "system \<Rightarrow> system" where
  "pause_listening s = s\<lparr>is_listening := False\<rparr>"

definition resume_listening :: "system \<Rightarrow> system" where
  "resume_listening s = s\<lparr>is_listening := True\<rparr>"

definition pause_interruption :: "system \<Rightarrow> system" where
  "pause_interruption s = s\<lparr>allow_listening_to_user := False\<rparr>"

text \<open>
  \<open>resume_interruption\<close> reads the module global \<open>allow_interruption\<close>, here its first
  argument: the flag becomes \<open>allow_interruption and True\<close>.
\<close>

definition resume_interruption :: "bool \<Rightarrow> system \<Rightarrow> system" where
  "resume_interruption allow_interruption s =
     s\<lparr>allow_listening_to_user := (allow_interruption \<and> True)\<rparr>"

text \<open>A queue emptied by \<open>get_nowait\<close> until it is empty.\<close>

fun drain :: "'a list \<Rightarrow> 'a list" where
  "drain [] = []"
| "drain (x # xs) = drain xs"

definition clear_all_queues :: "system \<Rightarrow> system" where
  "clear_all_queues s = s\<lparr>audio_queue := drain (audio_queue s)\<rparr>"

definition flush_queue :: "system \<Rightarrow> system" where
  "flush_queue s = s\<lparr>player_queue := drain (player_queue s)\<rparr>"

definition stop_current :: "system \<Rightarrow> system" where
  "stop_current s =
     flush_queue (s\<lparr>current_job := map_option (\<lambda>j. j\<lparr>canceled := True\<rparr>) (current_job s)\<rparr>)"

text \<open>\<open>sd.stop()\<close> is an external call; \<open>raises\<close> says whether it fails.\<close>

definition sd_stop :: "bool \<Rightarrow> system \<Rightarrow> error + system" where
  "sd_stop raises s = (if raises then Inl RuntimeError else Inr (s\<lparr>sd_playing := False\<rparr>))"

text \<open>
  \<open>SystemState.interrupt\<close> (lines 90 to 105): each \<open>try\<close> swallows what its body
  raises and goes on from the state reached.
\<close>

definition interrupt :: "bool \<Rightarrow> system \<Rightarrow> error + system" where
  "interrupt sd_raises s =
     (let s1 = (case sd_stop sd_raises s of Inl _ \<Rightarrow> s | Inr s' \<Rightarrow> s');
          s2 = flush_queue (stop_current s1);
          s3 = clear_all_queues s2
      in Inr (s3\<lparr>is_speaking := False, is_listening := True\<rparr>))"

text \<open>
  The dispatch to the remote AI in \<open>main_thread\<close> (lines 534 to 558), as far as the
  gate goes: \<open>resume_interruption\<close>, then the calls to the AI and to the player, which
  touch no field of the state and may raise, then \<open>pause_interruption\<close>, which an
  exception skips. Line 419 is the head of the next iteration.
\<close>

definition ai_dispatch :: "bool \<Rightarrow> bool \<Rightarrow> system \<Rightarrow> system" where
  "ai_dispatch allow_interruption raises s =
     (let s1 = resume_interruption allow_interruption s
      in if raises then s1 else pause_interruption s1)"

definition iteration_head :: "system \<Rightarrow> system" where
  "iteration_head s = pause_interruption s"

text \<open>The parameters of the short window of \<open>interruption_thread\<close> (lines 362 to 371).\<close>

definition short_window :: params where
  "short_window =
     \<lparr>max_duration = 13 / 10, noise_calib_duration = 0, start_frames = 2, end_frames = 8,
      post_silence_hold = 0, pre_roll_ms = 200, min_speech_after_start = 2 / 10,
      threshold_boost = 0\<rparr>"

text \<open>
  One iteration of the loop of \<open>interruption_thread\<close> (lines 359 to 399). The
  transcription and the stop detector are parameters; \<open>time.sleep\<close> advances the clock.
\<close>

definition sleep :: "real \<Rightarrow> world \<Rightarrow> world" where
  "sleep t w = w\<lparr>clock := clock w + t\<rparr>"

definition interruption_iteration ::
  "(bytes \<Rightarrow> nat) \<Rightarrow> recorder \<Rightarrow> (bytes \<Rightarrow> error + string) \<Rightarrow> (string \<Rightarrow> bool) \<Rightarrow> bool
     \<Rightarrow> system \<Rightarrow> world \<Rightarrow> (system \<times> world) option" where
  "interruption_iteration rms R transcribe is_stop sd_raises s w =
     (if allow_listening_to_user s then
        (case record_until_silence rms R short_window w of
           None \<Rightarrow> None
         | Some (Inl err, w1) \<Rightarrow> Some (s, sleep (1 / 10) w1)
         | Some (Inr audio_buf, w1) \<Rightarrow>
             if audio_buf = [] then Some (s, sleep (5 / 100) w1)
             else (case transcribe audio_buf of
                     Inl err \<Rightarrow> Some (s, w1)
                   | Inr partial \<Rightarrow>
                       if partial = [] then Some (s, w1)
                       else if is_stop partial then
                         (case interrupt sd_raises s of
                            Inl err \<Rightarrow> Some (s, sleep (1 / 10) w1)
                          | Inr s' \<Rightarrow> Some (resume_listening s', sleep (3 / 10) w1))
                       else Some (s, w1)))
      else Some (s, w))"

section \<open>Worked inputs\<close>

text \<open>
  A stand-in for the energy meter, the first byte of the chunk, and chunks of one byte
  value; the recorder of Config.py (16 kHz, 16 bit, mono, chunks of 256 frames, so 512
  bytes and 16 ms a read); a device that is ready.
\<close>

definition level_meter :: "bytes \<Rightarrow> nat" where
  "level_meter data = (case data of [] \<Rightarrow> 0 | b # _ \<Rightarrow> unat b)"

definition tone :: "byte \<Rightarrow> bytes" where
  "tone b = replicate 512 b"

definition reads :: "nat \<Rightarrow> byte \<Rightarrow> mic_script" where
  "reads n b = replicate n (16 / 1000, Frame (tone b))"

definition config_recorder :: recorder where
  "config_recorder = \<lparr>rate = 16000, width = 2, channels = 1, chunk = 256\<rparr>"

definition ready_at :: "real \<Rightarrow> mic_script \<Rightarrow> world" where
  "ready_at t m =
     \<lparr>clock = t, mic = m, has_pyaudio = True, pa_ready = True, stream_open = True,
      open_ok = True\<rparr>"

text \<open>
  The silent room: two chunks of calibration at energy 50, three at 40, five at 200,
  fifteen at 30, then the device goes on at 20.
\<close>

definition silent_room :: params where
  "silent_room =
     \<lparr>max_duration = 25, noise_calib_duration = 32 / 1000, start_frames = 3, end_frames = 15,
      post_silence_hold = 5 / 100, pre_roll_ms = 300, min_speech_after_start = 0,
      threshold_boost = 2\<rparr>"

definition silent_room_mic :: mic_script where
  "silent_room_mic = reads 2 50 @ reads 3 40 @ reads 5 200 @ reads 15 30 @ reads 4 20"

text \<open>
  A clipped syllable: no calibration, three loud chunks, then quiet; two quiet chunks
  would end the speech, the minimum of 100 ms holds the end back.
\<close>

definition clipped :: params where
  "clipped =
     \<lparr>max_duration = 25, noise_calib_duration = 0, start_frames = 3, end_frames = 2,
      post_silence_hold = 0, pre_roll_ms = 0, min_speech_after_start = 1 / 10,
      threshold_boost = 2\<rparr>"

definition clipped_mic :: mic_script where
  "clipped_mic = reads 3 200 @ reads 9 30"

text \<open>A long calibration before a short recording, in a quiet room.\<close>

definition long_calibration :: params where
  "long_calibration =
     \<lparr>max_duration = 32 / 1000, noise_calib_duration = 64 / 1000, start_frames = 3,
      end_frames = 15, post_silence_hold = 0, pre_roll_ms = 0, min_speech_after_start = 0,
      threshold_boost = 2\<rparr>"

text \<open>The parameters \<open>main_thread\<close> records with (lines 432 to 441).\<close>

definition primary_listen :: params where
  "primary_listen =
     \<lparr>max_duration = 25, noise_calib_duration = 8 / 10, start_frames = 3, end_frames = 18,
      post_silence_hold = 35 / 100, pre_roll_ms = 350, min_speech_after_start = 18 / 10,
      threshold_boost = 3\<rparr>"

text \<open>A first call, the stream not yet open, whose priming read fails.\<close>

definition no_calibration :: params where
  "no_calibration =
     \<lparr>max_duration = 32 / 1000, noise_calib_duration = 0, start_frames = 3, end_frames = 15,
      post_silence_hold = 0, pre_roll_ms = 0, min_speech_after_start = 0,
      threshold_boost = 2\<rparr>"

definition first_call :: "mic_script \<Rightarrow> world" where
  "first_call m =
     \<lparr>clock = 1000, mic = m, has_pyaudio = True, pa_ready = True, stream_open = False,
      open_ok = True\<rparr>"

section \<open>Thresholds\<close>

text \<open>
  C1. The hysteresis invariant: whatever the noise floor and the boost (in particular
  for every noise floor \<open>\<ge> 0\<close> and every boost \<open>\<ge> 0\<close>), the threshold to start is at
  least the threshold to end, as \<open>record_until_silence\<close> derives them.
\<close>

theorem hysteresis_invariant:
  "end_threshold nf boost \<le> start_threshold nf boost"
proof (cases "0 \<le> nf * boost")
  case True
  then have "nf * (boost * (55 / 100)) \<le> nf * boost"
    by (simp add: algebra_simps)
  then show ?thesis
    unfolding end_threshold_def start_threshold_def by linarith
next
  case False
  then have "nf * (boost * (55 / 100)) \<le> 0"
    by (simp add: algebra_simps)
  then show ?thesis
    unfolding end_threshold_def start_threshold_def by linarith
qed

end
